theory Spec2Isabelle
  imports Complex_Main
begin

section \<open>Synthetic medical data generation (statbox)\<close>

text \<open>
  The development embeds \<^verbatim>\<open>tools/generate_data.py\<close> (functions
  \<^verbatim>\<open>generate_correlated_variables\<close> and \<^verbatim>\<open>generate_synthetic_data\<close>) and the older
  \<^verbatim>\<open>generate_synthetic_medical_data.py\<close> (its own \<^verbatim>\<open>generate_synthetic_data\<close>, here
  \<open>generate_synthetic_data_legacy\<close>).

  Conventions of the embedding:
  \<^item> float64 values are idealised as real numbers, extended by one value \<open>NaN\<close> for the
    result of \<^verbatim>\<open>np.sqrt\<close> on a negative number; rounding, overflow and infinities are
    outside the model;
  \<^item> the process-wide generator of NumPy (which SciPy's \<^verbatim>\<open>rvs\<close> draws from as well) is
    a state of type \<open>'g\<close> that every sampler takes and returns; the raw variate
    generators are parameters, collected in the record \<open>numpy\<close>;
  \<^item> an exception is the left summand of the result; the state reached when the
    exception is raised is returned with it, as the global generator keeps it;
  \<^item> \<^verbatim>\<open>data_dict\<close> is an association list in insertion order;
  \<^item> \<^verbatim>\<open>random_seed\<close> is an integer, \<^verbatim>\<open>correlated_vars\<close> is either \<^verbatim>\<open>None\<close> or a
    dictionary with all the keys the docstring lists.
\<close>

subsection \<open>Values, errors, sampling with a threaded generator state\<close>

datatype cell = IntV int | FloatV real | NaN

type_synonym column = "cell list"

datatype error = ValueError

type_synonym ('a, 'g) sampling = "'g \<Rightarrow> (error + 'a) \<times> 'g"

definition and_then :: "('a, 'g) sampling \<Rightarrow> ('a \<Rightarrow> ('b, 'g) sampling) \<Rightarrow> ('b, 'g) sampling" where
  "and_then m f g = (case m g of (Inl e, g') \<Rightarrow> (Inl e, g') | (Inr x, g') \<Rightarrow> f x g')"

definition ret :: "'a \<Rightarrow> ('a, 'g) sampling" where
  "ret x g = (Inr x, g)"

text \<open>Float arithmetic: real arithmetic, with \<open>NaN\<close> absorbing.\<close>

fun fmul :: "cell \<Rightarrow> cell \<Rightarrow> cell" where
  "fmul (FloatV a) (FloatV b) = FloatV (a * b)"
| "fmul _ _ = NaN"

fun fadd :: "cell \<Rightarrow> cell \<Rightarrow> cell" where
  "fadd (FloatV a) (FloatV b) = FloatV (a + b)"
| "fadd _ _ = NaN"

definition np_sqrt :: "real \<Rightarrow> cell" where
  "np_sqrt x = (if x < 0 then NaN else FloatV (sqrt x))"

text \<open>
  \<^verbatim>\<open>ndarray.astype(int)\<close> on floats casts to int64: it truncates toward zero, and a value
  outside the int64 range comes out as the least int64.
\<close>

definition to_int64 :: "int \<Rightarrow> int" where
  "to_int64 t = (if - (2 ^ 63) \<le> t \<and> t < 2 ^ 63 then t else - (2 ^ 63))"

definition astype_int :: "real \<Rightarrow> cell" where
  "astype_int x = IntV (to_int64 (if 0 \<le> x then \<lfloor>x\<rfloor> else \<lceil>x\<rceil>))"

subsection \<open>The sampling library\<close>

text \<open>
  The variate generators of NumPy's global \<^verbatim>\<open>RandomState\<close>, one draw each:
  \<open>seed_state s\<close> is the state after \<^verbatim>\<open>np.random.seed(s)\<close>.
\<close>

record 'g numpy =
  seed_state :: "int \<Rightarrow> 'g"
  standard_normal :: "'g \<Rightarrow> real \<times> 'g"
  standard_gamma :: "real \<Rightarrow> 'g \<Rightarrow> real \<times> 'g"
  binomial :: "int \<Rightarrow> real \<Rightarrow> 'g \<Rightarrow> int \<times> 'g"

text \<open>An array of \<open>k\<close> variates is \<open>k\<close> successive draws.\<close>

fun draws :: "('g \<Rightarrow> 'a \<times> 'g) \<Rightarrow> nat \<Rightarrow> 'g \<Rightarrow> 'a list \<times> 'g" where
  "draws f 0 g = ([], g)"
| "draws f (Suc k) g =
     (case f g of (x, g1) \<Rightarrow> (case draws f k g1 of (xs, g2) \<Rightarrow> (x # xs, g2)))"

text \<open>
  \<^verbatim>\<open>np.random.seed(s)\<close> replaces the global state whatever it was; a seed outside
  \<open>0 .. 2^32 - 1\<close> is a \<^verbatim>\<open>ValueError\<close>.
\<close>

definition np_random_seed :: "'g numpy \<Rightarrow> int \<Rightarrow> (unit, 'g) sampling" where
  "np_random_seed L s g =
     (if 0 \<le> s \<and> s < 2 ^ 32 then (Inr (), seed_state L s) else (Inl ValueError, g))"

text \<open>
  \<^verbatim>\<open>np.random.normal(loc, scale, size)\<close>: a negative \<^verbatim>\<open>scale\<close> or \<^verbatim>\<open>size\<close> is a
  \<^verbatim>\<open>ValueError\<close>.
\<close>

definition np_random_normal :: "'g numpy \<Rightarrow> real \<Rightarrow> real \<Rightarrow> int \<Rightarrow> (real list, 'g) sampling" where
  "np_random_normal L loc scale sz g =
     (if scale < 0 \<or> sz < 0 then (Inl ValueError, g)
      else case draws (standard_normal L) (nat sz) g of
             (zs, g') \<Rightarrow> (Inr (map (\<lambda>z. loc + scale * z) zs), g'))"

text \<open>
  SciPy's \<^verbatim>\<open>rvs\<close>: the shape parameters are checked by the distribution and the scale
  must not be negative, else \<^verbatim>\<open>ValueError\<close>; a scale of exactly 0 returns the
  constant array \<^verbatim>\<open>loc * ones(size)\<close> without drawing; otherwise the standard variates
  are drawn and rescaled. A negative \<^verbatim>\<open>size\<close> is a \<^verbatim>\<open>ValueError\<close> in all cases.
\<close>

definition norm_rvs :: "'g numpy \<Rightarrow> real \<Rightarrow> real \<Rightarrow> int \<Rightarrow> (real list, 'g) sampling" where
  "norm_rvs L loc scale sz g =
     (if scale < 0 \<or> sz < 0 then (Inl ValueError, g)
      else if scale = 0 then (Inr (replicate (nat sz) loc), g)
      else case draws (standard_normal L) (nat sz) g of
             (zs, g') \<Rightarrow> (Inr (map (\<lambda>z. z * scale + loc) zs), g'))"

definition gamma_rvs :: "'g numpy \<Rightarrow> real \<Rightarrow> real \<Rightarrow> int \<Rightarrow> (real list, 'g) sampling" where
  "gamma_rvs L a scale sz g =
     (if \<not> 0 < a \<or> scale < 0 \<or> sz < 0 then (Inl ValueError, g)
      else if scale = 0 then (Inr (replicate (nat sz) 0), g)
      else case draws (standard_gamma L a) (nat sz) g of
             (zs, g') \<Rightarrow> (Inr (map (\<lambda>z. z * scale) zs), g'))"

definition binom_rvs :: "'g numpy \<Rightarrow> int \<Rightarrow> real \<Rightarrow> int \<Rightarrow> (int list, 'g) sampling" where
  "binom_rvs L n p sz g =
     (if n < 0 \<or> p < 0 \<or> 1 < p \<or> sz < 0 then (Inl ValueError, g)
      else case draws (binomial L n p) (nat sz) g of (zs, g') \<Rightarrow> (Inr zs, g'))"

subsection \<open>Dictionaries and data frames\<close>

text \<open>
  \<^verbatim>\<open>d[k] = v\<close> on a Python dictionary: an existing key keeps its position and takes
  the new value, a new key goes to the end.
\<close>

fun setitem :: "(string \<times> 'v) list \<Rightarrow> string \<Rightarrow> 'v \<Rightarrow> (string \<times> 'v) list" where
  "setitem [] k v = [(k, v)]"
| "setitem ((k', v') # d) k v = (if k' = k then (k, v) # d else (k', v') # setitem d k v)"

text \<open>
  A data frame: its columns in order, and the length of its index.
  \<^verbatim>\<open>pd.DataFrame(dict)\<close> on a dictionary of arrays keeps the dictionary's order and
  raises \<^verbatim>\<open>ValueError\<close> when the arrays differ in length.
\<close>

record dataframe =
  cols :: "(string \<times> column) list"
  nrows :: nat

definition pd_DataFrame :: "(string \<times> column) list \<Rightarrow> error + dataframe" where
  "pd_DataFrame d =
     (case d of
        [] \<Rightarrow> Inr \<lparr>cols = [], nrows = 0\<rparr>
      | (k, c) # rest \<Rightarrow>
          if list_all (\<lambda>(k', c'). length c' = length c) rest
          then Inr \<lparr>cols = d, nrows = length c\<rparr>
          else Inl ValueError)"

text \<open>\<^verbatim>\<open>df[k] = values\<close>: the same replacement or append, on arrays of the index's length.\<close>

definition df_setitem :: "dataframe \<Rightarrow> string \<Rightarrow> column \<Rightarrow> error + dataframe" where
  "df_setitem df k c =
     (if length c = nrows df then Inr (df\<lparr>cols := setitem (cols df) k c\<rparr>) else Inl ValueError)"

definition field_names :: "dataframe \<Rightarrow> string list" where
  "field_names df = map fst (cols df)"

text \<open>The rows of a frame: row \<open>i\<close> pairs every field name with the \<open>i\<close>-th value of its column.\<close>

definition rows :: "dataframe \<Rightarrow> (string \<times> cell) list list" where
  "rows df = map (\<lambda>i. map (\<lambda>(k, c). (k, c ! i)) (cols df)) [0 ..< nrows df]"

subsection \<open>Configuration\<close>

record corr_var =
  name :: string
  mean :: real
  std :: real

record corr_spec =
  var1 :: corr_var
  var2 :: corr_var
  correlation :: real

record config =
  num_samples :: int
  age_params :: "real \<times> real"
  weight_params :: "real \<times> real"
  length_of_stay_params :: "real \<times> real"
  comorbidity_list :: "string list option"
  comorbidity_prevalences :: "real list option"
  survival_shape :: real
  survival_scale :: real
  correlated_vars :: "corr_spec option"
  random_seed :: int

text \<open>The defaults of the signature of \<^verbatim>\<open>generate_synthetic_data\<close>.\<close>

definition default_config :: config where
  "default_config =
     \<lparr>num_samples = 1000, age_params = (60, 10), weight_params = (70, 15),
      length_of_stay_params = (2, 2), comorbidity_list = None,
      comorbidity_prevalences = None, survival_shape = 2, survival_scale = 5,
      correlated_vars = None, random_seed = 42\<rparr>"

text \<open>The two \<^verbatim>\<open>is None\<close> defaults of the body.\<close>

definition comorbidity_names :: "config \<Rightarrow> string list" where
  "comorbidity_names cfg =
     (case comorbidity_list cfg of
        None \<Rightarrow> [''diabetes'', ''hypertension'', ''cancer'']
      | Some l \<Rightarrow> l)"

definition prevalences :: "config \<Rightarrow> real list" where
  "prevalences cfg =
     (case comorbidity_prevalences cfg of None \<Rightarrow> [2 / 10, 3 / 10, 5 / 100] | Some l \<Rightarrow> l)"

subsection \<open>\<^verbatim>\<open>generate_correlated_variables\<close>\<close>

definition generate_correlated_variables ::
  "'g numpy \<Rightarrow> int \<Rightarrow> real \<Rightarrow> real \<Rightarrow> real \<Rightarrow> real \<Rightarrow> real \<Rightarrow> (column \<times> column, 'g) sampling" where
  "generate_correlated_variables L n mean1 std1 mean2 std2 corr =
     and_then (np_random_normal L 0 1 n) (\<lambda>x1.
     and_then (np_random_normal L 0 1 n) (\<lambda>x2.
       let x2' = map2 (\<lambda>a b. fadd (fmul (FloatV corr) (FloatV a))
                                  (fmul (np_sqrt (1 - corr ^ 2)) (FloatV b))) x1 x2;
           var1 = map (\<lambda>a. fadd (fmul (FloatV a) (FloatV std1)) (FloatV mean1)) x1;
           var2 = map (\<lambda>b. fadd (fmul b (FloatV std2)) (FloatV mean2)) x2'
       in ret (var1, var2)))"

subsection \<open>\<^verbatim>\<open>generate_synthetic_data\<close> of \<^verbatim>\<open>tools/generate_data.py\<close>\<close>

text \<open>The loop over \<^verbatim>\<open>zip(comorbidity_list, comorbidity_prevalences)\<close>.\<close>

fun comorbidity_loop ::
  "'g numpy \<Rightarrow> int \<Rightarrow> (string \<times> real) list \<Rightarrow> (string \<times> column) list \<Rightarrow>
     ((string \<times> column) list, 'g) sampling" where
  "comorbidity_loop L n [] d = ret d"
| "comorbidity_loop L n ((comorbidity, prevalence) # rest) d =
     and_then (binom_rvs L 1 prevalence n) (\<lambda>b.
       comorbidity_loop L n rest (setitem d comorbidity (map IntV b)))"

text \<open>
  The \<^verbatim>\<open>if correlated_vars: ... else: ...\<close> block, on the empty \<^verbatim>\<open>data_dict\<close>: either the
  correlated pair under its two configured names, or \<^verbatim>\<open>age\<close> (cast to int) and
  \<^verbatim>\<open>weight\<close>.
\<close>

definition correlated_or_independent ::
  "'g numpy \<Rightarrow> config \<Rightarrow> ((string \<times> column) list, 'g) sampling" where
  "correlated_or_independent L cfg =
     (case correlated_vars cfg of
        Some cv \<Rightarrow>
          and_then (generate_correlated_variables L (num_samples cfg)
                      (mean (var1 cv)) (std (var1 cv)) (mean (var2 cv)) (std (var2 cv))
                      (correlation cv)) (\<lambda>(v1, v2).
            ret (setitem (setitem [] (name (var1 cv)) v1) (name (var2 cv)) v2))
      | None \<Rightarrow>
          and_then (norm_rvs L (fst (age_params cfg)) (snd (age_params cfg))
                      (num_samples cfg)) (\<lambda>a.
          and_then (norm_rvs L (fst (weight_params cfg)) (snd (weight_params cfg))
                      (num_samples cfg)) (\<lambda>w.
            ret (setitem (setitem [] ''age'' (map astype_int a)) ''weight'' (map FloatV w)))))"

definition generate_synthetic_data :: "'g numpy \<Rightarrow> config \<Rightarrow> (dataframe, 'g) sampling" where
  "generate_synthetic_data L cfg =
     and_then (np_random_seed L (random_seed cfg)) (\<lambda>_.
     and_then (correlated_or_independent L cfg) (\<lambda>d1.
     and_then (gamma_rvs L (fst (length_of_stay_params cfg)) (snd (length_of_stay_params cfg))
                 (num_samples cfg)) (\<lambda>los.
     and_then (comorbidity_loop L (num_samples cfg)
                 (zip (comorbidity_names cfg) (prevalences cfg))
                 (setitem d1 ''length_of_stay'' (map FloatV los))) (\<lambda>d2.
     and_then (gamma_rvs L (survival_shape cfg) (survival_scale cfg) (num_samples cfg)) (\<lambda>st.
     and_then (binom_rvs L 1 (3 / 10) (num_samples cfg)) (\<lambda>ev.
       (\<lambda>g. (pd_DataFrame (setitem (setitem d2 ''survival_time'' (map FloatV st))
                                 ''event_occurred'' (map IntV ev)), g))))))))"

subsection \<open>\<^verbatim>\<open>generate_synthetic_data\<close> of \<^verbatim>\<open>generate_synthetic_medical_data.py\<close>\<close>

text \<open>
  The loop that fills \<^verbatim>\<open>comorbidity_data\<close> is the loop above, started on the empty
  dictionary.
\<close>

text \<open>The loop \<^verbatim>\<open>for c_name, c_values in comorbidity_data.items(): data[c_name] = c_values\<close>.\<close>

fun insert_comorbidities :: "dataframe \<Rightarrow> (string \<times> column) list \<Rightarrow> error + dataframe" where
  "insert_comorbidities df [] = Inr df"
| "insert_comorbidities df ((c_name, c_values) # rest) =
     (case df_setitem df c_name c_values of
        Inl e \<Rightarrow> Inl e
      | Inr df' \<Rightarrow> insert_comorbidities df' rest)"

definition generate_synthetic_data_legacy :: "'g numpy \<Rightarrow> config \<Rightarrow> (dataframe, 'g) sampling" where
  "generate_synthetic_data_legacy L cfg =
     and_then (np_random_seed L (random_seed cfg)) (\<lambda>_.
     and_then (norm_rvs L (fst (age_params cfg)) (snd (age_params cfg)) (num_samples cfg)) (\<lambda>ages.
     and_then (norm_rvs L (fst (weight_params cfg)) (snd (weight_params cfg))
                 (num_samples cfg)) (\<lambda>weights.
     and_then (gamma_rvs L (fst (length_of_stay_params cfg)) (snd (length_of_stay_params cfg))
                 (num_samples cfg)) (\<lambda>length_of_stay.
     and_then (comorbidity_loop L (num_samples cfg)
                 (zip (comorbidity_names cfg) (prevalences cfg)) []) (\<lambda>comorbidity_data.
     and_then (gamma_rvs L (survival_shape cfg) (survival_scale cfg)
                 (num_samples cfg)) (\<lambda>survival_times.
     and_then (binom_rvs L 1 (3 / 10) (num_samples cfg)) (\<lambda>event_occurred.
       (\<lambda>g. (case pd_DataFrame
                      [(''age'', map astype_int ages), (''weight'', map FloatV weights),
                       (''length_of_stay'', map FloatV length_of_stay),
                       (''survival_time'', map FloatV survival_times),
                       (''event_occurred'', map IntV event_occurred)] of
                  Inl e \<Rightarrow> Inl e
                | Inr data \<Rightarrow> insert_comorbidities data comorbidity_data, g)))))))))"

subsection \<open>Vocabulary of the properties\<close>

text \<open>A run of dictionary assignments, in order.\<close>

definition assign :: "(string \<times> 'v) list \<Rightarrow> (string \<times> 'v) list \<Rightarrow> (string \<times> 'v) list" where
  "assign d kvs = fold (\<lambda>(k, v) d. setitem d k v) kvs d"

text \<open>
  The parameter domain on which no sampler of \<^verbatim>\<open>tools/generate_data.py\<close> raises: the seed
  is a 32-bit unsigned number, the sample count is not negative, the standard deviations
  of age and weight (when they are sampled) and the Gamma scales are not negative, the
  Gamma shapes are positive, and every prevalence that \<^verbatim>\<open>zip\<close> pairs with a name lies
  in \<open>[0, 1]\<close>.
\<close>

definition valid_config :: "config \<Rightarrow> bool" where
  "valid_config cfg \<longleftrightarrow>
     0 \<le> random_seed cfg \<and> random_seed cfg < 2 ^ 32 \<and> 0 \<le> num_samples cfg \<and>
     (correlated_vars cfg = None \<longrightarrow> 0 \<le> snd (age_params cfg) \<and> 0 \<le> snd (weight_params cfg)) \<and>
     0 < fst (length_of_stay_params cfg) \<and> 0 \<le> snd (length_of_stay_params cfg) \<and>
     list_all (\<lambda>(c, p). 0 \<le> p \<and> p \<le> 1) (zip (comorbidity_names cfg) (prevalences cfg)) \<and>
     0 < survival_shape cfg \<and> 0 \<le> survival_scale cfg"

text \<open>
  The same for the older script, which always samples age and weight.
\<close>

definition valid_config_legacy :: "config \<Rightarrow> bool" where
  "valid_config_legacy cfg \<longleftrightarrow>
     0 \<le> random_seed cfg \<and> random_seed cfg < 2 ^ 32 \<and> 0 \<le> num_samples cfg \<and>
     0 \<le> snd (age_params cfg) \<and> 0 \<le> snd (weight_params cfg) \<and>
     0 < fst (length_of_stay_params cfg) \<and> 0 \<le> snd (length_of_stay_params cfg) \<and>
     list_all (\<lambda>(c, p). 0 \<le> p \<and> p \<le> 1) (zip (comorbidity_names cfg) (prevalences cfg)) \<and>
     0 < survival_shape cfg \<and> 0 \<le> survival_scale cfg"

text \<open>The two batches of standard-normal draws of \<^verbatim>\<open>generate_correlated_variables\<close>.\<close>

definition pair_draws :: "'g numpy \<Rightarrow> int \<Rightarrow> 'g \<Rightarrow> real list \<times> real list \<times> 'g" where
  "pair_draws L n g =
     (let r1 = draws (standard_normal L) (nat n) g;
          r2 = draws (standard_normal L) (nat n) (snd r1)
      in (fst r1, fst r2, snd r2))"

text \<open>The field names in the order in which \<^verbatim>\<open>tools/generate_data.py\<close> assigns them.\<close>

definition pair_fields :: "config \<Rightarrow> string list" where
  "pair_fields cfg =
     (case correlated_vars cfg of
        Some cv \<Rightarrow> [name (var1 cv), name (var2 cv)]
      | None \<Rightarrow> [''age'', ''weight''])"

definition comorbidity_fields :: "config \<Rightarrow> string list" where
  "comorbidity_fields cfg = map fst (zip (comorbidity_names cfg) (prevalences cfg))"

definition assigned_fields :: "config \<Rightarrow> string list" where
  "assigned_fields cfg =
     pair_fields cfg @ [''length_of_stay''] @ comorbidity_fields cfg @
     [''survival_time'', ''event_occurred'']"

text \<open>The order the specification states.\<close>

definition spec_field_order :: "config \<Rightarrow> string list" where
  "spec_field_order cfg =
     pair_fields cfg @ [''length_of_stay'', ''survival_time'', ''event_occurred''] @
     comorbidity_fields cfg"

text \<open>
  A generator to run the model on: its state counts the variates drawn, and the
  variates are simple functions of the count.
\<close>

definition counting_numpy :: "nat numpy" where
  "counting_numpy =
     \<lparr>seed_state = (\<lambda>s. nat s),
      standard_normal = (\<lambda>g. (real g, Suc g)),
      standard_gamma = (\<lambda>a g. (a + real g, Suc g)),
      binomial = (\<lambda>n p g. (if 1 \<le> p then n else 0, Suc g))\<rparr>"

text \<open>The default configuration at two samples.\<close>

definition two_samples :: config where
  "two_samples = default_config\<lparr>num_samples := 2\<rparr>"

text \<open>Configurations the properties are run on.\<close>

definition no_samples :: config where
  "no_samples = default_config\<lparr>num_samples := 0\<rparr>"

definition bad_shape :: config where
  "bad_shape = two_samples\<lparr>survival_shape := 0\<rparr>"

definition zero_scale :: config where
  "zero_scale = two_samples\<lparr>length_of_stay_params := (2, 0)\<rparr>"

text \<open>
  The parameters that the samplers reject, among those the specification calls invalid.
\<close>

definition rejected_parameter :: "config \<Rightarrow> bool" where
  "rejected_parameter cfg \<longleftrightarrow>
     num_samples cfg < 0 \<or>
     fst (length_of_stay_params cfg) \<le> 0 \<or> snd (length_of_stay_params cfg) < 0 \<or>
     survival_shape cfg \<le> 0 \<or> survival_scale cfg < 0 \<or>
     list_ex (\<lambda>(c, p). p < 0 \<or> 1 < p) (zip (comorbidity_names cfg) (prevalences cfg))"

text \<open>
  The key order of a Python dictionary after assigning to the keys \<open>ks\<close> in turn: each key
  at the place of its first assignment.
\<close>

definition insertion_order :: "string list \<Rightarrow> string list" where
  "insertion_order ks = fold (\<lambda>k acc. if k \<in> set acc then acc else acc @ [k]) ks []"

text \<open>The field names of the older script: the five of the \<^verbatim>\<open>pd.DataFrame\<close> call, then the comorbidities.\<close>

definition legacy_fields :: "config \<Rightarrow> string list" where
  "legacy_fields cfg =
     [''age'', ''weight'', ''length_of_stay'', ''survival_time'', ''event_occurred''] @
     comorbidity_fields cfg"

definition colliding_name :: config where
  "colliding_name =
     two_samples\<lparr>comorbidity_list := Some [''age''], comorbidity_prevalences := Some [1]\<rparr>"


definition surplus_prevalences :: config where
  "surplus_prevalences =
     two_samples\<lparr>comorbidity_list := Some [''asthma''],
                  comorbidity_prevalences := Some [1 / 10, 7, - 3]\<rparr>"

text \<open>
  A configuration with its two comorbidity lists cut to the length of the shorter one.
\<close>

definition truncated :: "config \<Rightarrow> config" where
  "truncated cfg =
     (let m = min (length (comorbidity_names cfg)) (length (prevalences cfg))
      in cfg\<lparr>comorbidity_list := Some (take m (comorbidity_names cfg)),
              comorbidity_prevalences := Some (take m (prevalences cfg))\<rparr>)"

section \<open>Properties\<close>

subsection \<open>Sequencing and samplers\<close>

lemma and_then_Inr_iff:
  "and_then m f g = (Inr y, g'') \<longleftrightarrow> (\<exists>x g'. m g = (Inr x, g') \<and> f x g' = (Inr y, g''))"
  by (auto simp: and_then_def split: prod.splits sum.splits)

lemma length_draws: "length (fst (draws f k g)) = k"
  by (induction k arbitrary: g) (simp_all add: case_prod_beta)

lemma norm_rvs_ok:
  "0 \<le> scale \<Longrightarrow> 0 \<le> n \<Longrightarrow> \<exists>xs g'. norm_rvs L loc scale n g = (Inr xs, g') \<and> length xs = nat n"
  using length_draws [of "standard_normal L" "nat n" g]
  by (auto simp: norm_rvs_def split: prod.splits)

lemma norm_rvs_Inr:
  "norm_rvs L loc scale n g = (Inr xs, g') \<Longrightarrow> 0 \<le> scale \<and> 0 \<le> n \<and> length xs = nat n"
  using length_draws [of "standard_normal L" "nat n" g]
  by (auto simp: norm_rvs_def split: prod.splits if_splits)

lemma gamma_rvs_ok:
  "0 < a \<Longrightarrow> 0 \<le> scale \<Longrightarrow> 0 \<le> n \<Longrightarrow>
     \<exists>xs g'. gamma_rvs L a scale n g = (Inr xs, g') \<and> length xs = nat n"
  using length_draws [of "standard_gamma L a" "nat n" g]
  by (auto simp: gamma_rvs_def split: prod.splits)

lemma gamma_rvs_Inr:
  "gamma_rvs L a scale n g = (Inr xs, g') \<Longrightarrow> 0 < a \<and> 0 \<le> scale \<and> 0 \<le> n \<and> length xs = nat n"
  using length_draws [of "standard_gamma L a" "nat n" g]
  by (auto simp: gamma_rvs_def split: prod.splits if_splits)

lemma binom_rvs_ok:
  "0 \<le> p \<Longrightarrow> p \<le> 1 \<Longrightarrow> 0 \<le> n \<Longrightarrow>
     \<exists>xs g'. binom_rvs L 1 p n g = (Inr xs, g') \<and> length xs = nat n"
  using length_draws [of "binomial L 1 p" "nat n" g]
  by (auto simp: binom_rvs_def split: prod.splits)

lemma binom_rvs_Inr:
  "binom_rvs L k p n g = (Inr xs, g') \<Longrightarrow> 0 \<le> p \<and> p \<le> 1 \<and> 0 \<le> n \<and> length xs = nat n"
  using length_draws [of "binomial L k p" "nat n" g]
  by (auto simp: binom_rvs_def split: prod.splits if_splits)

subsection \<open>Dictionary assignments\<close>

lemma assign_Nil [simp]: "assign d [] = d"
  by (simp add: assign_def)

lemma assign_Cons [simp]: "assign d ((k, v) # kvs) = assign (setitem d k v) kvs"
  by (simp add: assign_def)

lemma assign_append: "assign d (xs @ ys) = assign (assign d xs) ys"
  by (simp add: assign_def)

lemma keys_setitem:
  "map fst (setitem d k v) = (if k \<in> set (map fst d) then map fst d else map fst d @ [k])"
  by (induction d k v rule: setitem.induct) auto

lemma map_of_setitem: "map_of (setitem d k v) = (map_of d)(k \<mapsto> v)"
  by (induction d k v rule: setitem.induct) (auto simp: fun_eq_iff)

lemma values_setitem: "snd ` set (setitem d k v) \<subseteq> insert v (snd ` set d)"
  by (induction d k v rule: setitem.induct) auto

lemma setitem_nonempty [simp]: "setitem d k v \<noteq> []"
  by (induction d k v rule: setitem.induct) auto

lemma dom_setitem: "fst ` set (setitem d k v) = insert k (fst ` set d)"
  by (induction d k v rule: setitem.induct) auto

lemma keys_assign_set: "fst ` set (assign d kvs) = fst ` set d \<union> fst ` set kvs"
proof (induction kvs arbitrary: d)
  case Nil
  show ?case by simp
next
  case (Cons kv kvs)
  obtain k v where kv: "kv = (k, v)" by (cases kv)
  show ?case
    unfolding kv by (simp add: Cons.IH dom_setitem)
qed

lemma distinct_setitem: "distinct (map fst d) \<Longrightarrow> distinct (map fst (setitem d k v))"
  by (simp add: keys_setitem)

lemma keys_assign_distinct: "distinct (map fst d) \<Longrightarrow> distinct (map fst (assign d kvs))"
proof (induction kvs arbitrary: d)
  case Nil
  then show ?case by simp
next
  case (Cons kv kvs)
  obtain k v where kv: "kv = (k, v)" by (cases kv)
  show ?case
    unfolding kv using Cons.IH [OF distinct_setitem [OF Cons.prems]] by simp
qed

lemma keys_assign_fresh:
  "distinct (map fst d @ map fst kvs) \<Longrightarrow> map fst (assign d kvs) = map fst d @ map fst kvs"
proof (induction kvs arbitrary: d)
  case Nil
  then show ?case by simp
next
  case (Cons kv kvs)
  obtain k v where kv: "kv = (k, v)" by (cases kv)
  from Cons.prems have fresh: "k \<notin> set (map fst d)" and
    d': "distinct ((map fst d @ [k]) @ map fst kvs)"
    by (auto simp: kv)
  from fresh have keys: "map fst (setitem d k v) = map fst d @ [k]"
    by (simp only: keys_setitem if_False)
  from d' have "distinct (map fst (setitem d k v) @ map fst kvs)"
    by (simp only: keys)
  from Cons.IH [OF this] show ?case
    by (simp add: kv keys)
qed

lemma map_of_assign: "map_of (assign d kvs) = map_of d ++ map_of (rev kvs)"
  by (induction kvs arbitrary: d) (auto simp: map_of_setitem)

lemma values_assign: "snd ` set (assign d kvs) \<subseteq> snd ` set d \<union> snd ` set kvs"
proof (induction kvs arbitrary: d)
  case Nil
  show ?case by simp
next
  case (Cons kv kvs)
  obtain k v where kv: "kv = (k, v)" by (cases kv)
  have "snd ` set (assign (setitem d k v) kvs) \<subseteq> snd ` set (setitem d k v) \<union> snd ` set kvs"
    by (rule Cons.IH)
  with values_setitem [of d k v] show ?case
    unfolding kv by simp blast
qed

lemma assign_nonempty: "d \<noteq> [] \<or> kvs \<noteq> [] \<Longrightarrow> assign d kvs \<noteq> []"
  by (induction kvs arbitrary: d) auto

lemma pd_DataFrame_ok:
  "d \<noteq> [] \<Longrightarrow> \<forall>c \<in> snd ` set d. length c = k \<Longrightarrow> pd_DataFrame d = Inr \<lparr>cols = d, nrows = k\<rparr>"
  by (cases d) (fastforce simp: pd_DataFrame_def list_all_iff)+

lemma comorbidity_loop_Inr:
  "comorbidity_loop L n ps d g = (Inr d', g') \<Longrightarrow>
     \<exists>cs. length cs = length ps \<and> (\<forall>c \<in> set cs. length c = nat n) \<and>
          d' = assign d (zip (map fst ps) cs) \<and> (\<forall>p \<in> snd ` set ps. 0 \<le> p \<and> p \<le> 1) \<and>
          (ps \<noteq> [] \<longrightarrow> 0 \<le> n)"
proof (induction ps arbitrary: d g)
  case Nil
  then show ?case by (simp add: ret_def)
next
  case (Cons kp ps)
  obtain k p where kp: "kp = (k, p)" by (cases kp)
  from Cons.prems obtain b g1 where
    b: "binom_rvs L 1 p n g = (Inr b, g1)" and
    rest: "comorbidity_loop L n ps (setitem d k (map IntV b)) g1 = (Inr d', g')"
    unfolding kp by (auto simp: and_then_Inr_iff)
  from Cons.IH [OF rest] obtain cs where
    cs: "length cs = length ps" "\<forall>c \<in> set cs. length c = nat n"
        "d' = assign (setitem d k (map IntV b)) (zip (map fst ps) cs)"
        "\<forall>p \<in> snd ` set ps. 0 \<le> p \<and> p \<le> 1"
    by blast
  from binom_rvs_Inr [OF b] have pb: "0 \<le> p" "p \<le> 1" "0 \<le> n" "length b = nat n" by auto
  show ?case
    by (rule exI [of _ "map IntV b # cs"]) (use cs pb in \<open>auto simp: kp\<close>)
qed

lemma comorbidity_loop_ok:
  "\<forall>p \<in> snd ` set ps. 0 \<le> p \<and> p \<le> 1 \<Longrightarrow> 0 \<le> n \<Longrightarrow>
     \<exists>d' g'. comorbidity_loop L n ps d g = (Inr d', g')"
proof (induction ps arbitrary: d g)
  case Nil
  then show ?case by (simp add: ret_def)
next
  case (Cons kp ps)
  obtain k p where kp: "kp = (k, p)" by (cases kp)
  from Cons.prems have "0 \<le> p" "p \<le> 1" by (auto simp: kp)
  from binom_rvs_ok [OF this Cons.prems(2), where L = L and g = g] obtain b g1 where
    b: "binom_rvs L 1 p n g = (Inr b, g1)" by blast
  from Cons.IH [of "setitem d k (map IntV b)" g1] Cons.prems
  show ?case by (auto simp: kp and_then_def b)
qed


subsection \<open>The correlated pair\<close>

lemma np_random_normal_std:
  "0 \<le> n \<Longrightarrow> np_random_normal L 0 1 n g =
     (Inr (fst (draws (standard_normal L) (nat n) g)), snd (draws (standard_normal L) (nat n) g))"
  by (simp add: np_random_normal_def case_prod_beta)

lemma np_random_normal_neg: "n < 0 \<Longrightarrow> np_random_normal L loc scale n g = (Inl ValueError, g)"
  by (simp add: np_random_normal_def)

lemma generate_correlated_variables_eq:
  assumes "0 \<le> n"
  shows "generate_correlated_variables L n mean1 std1 mean2 std2 corr g =
     (case pair_draws L n g of (x1, x2, g') \<Rightarrow>
        (Inr (map (\<lambda>a. FloatV (a * std1 + mean1)) x1,
              map2 (\<lambda>a b. fadd (fmul (fadd (fmul (FloatV corr) (FloatV a))
                                            (fmul (np_sqrt (1 - corr ^ 2)) (FloatV b)))
                                      (FloatV std2)) (FloatV mean2)) x1 x2), g'))"
  using assms
  by (simp add: generate_correlated_variables_def pair_draws_def and_then_def
      np_random_normal_std ret_def Let_def map_zip_map2 case_prod_beta zip_map1 zip_map2)

lemma generate_correlated_variables_neg:
  "n < 0 \<Longrightarrow> generate_correlated_variables L n mean1 std1 mean2 std2 corr g = (Inl ValueError, g)"
  by (simp add: generate_correlated_variables_def and_then_def np_random_normal_neg)

lemma length_drawsD: "draws f k g = (xs, g') \<Longrightarrow> length xs = k"
  using length_draws [of f k g] by simp

lemma pair_draws_lengths:
  "pair_draws L n g = (x1, x2, g') \<Longrightarrow> length x1 = nat n \<and> length x2 = nat n"
  by (auto simp: pair_draws_def Let_def length_draws dest: length_drawsD)

lemma generate_correlated_variables_Inr:
  assumes "generate_correlated_variables L n mean1 std1 mean2 std2 corr g = (Inr (v1, v2), g')"
  shows "0 \<le> n \<and> length v1 = nat n \<and> length v2 = nat n"
proof -
  have n: "0 \<le> n"
    using assms generate_correlated_variables_neg [of n L mean1 std1 mean2 std2 corr g]
    by (cases "0 \<le> n") auto
  obtain x1 x2 g2 where pd: "pair_draws L n g = (x1, x2, g2)"
    by (cases "pair_draws L n g") auto
  from pair_draws_lengths [OF pd] assms show ?thesis
    by (auto simp: generate_correlated_variables_eq [OF n] pd n)
qed


subsection \<open>What a successful run of \<^verbatim>\<open>generate_synthetic_data\<close> returns\<close>

lemma list_all_zip_iff:
  "list_all (\<lambda>(c, p). P p) ps \<longleftrightarrow> (\<forall>p \<in> snd ` set ps. P p)"
  by (auto simp: list_all_iff)

lemma columns_ok:
  assumes "kvs \<noteq> []" "\<forall>c \<in> snd ` set kvs. length c = k"
  shows "pd_DataFrame (assign [] kvs) = Inr \<lparr>cols = assign [] kvs, nrows = k\<rparr>"
proof (rule pd_DataFrame_ok)
  show "assign [] kvs \<noteq> []" using assms(1) by (simp add: assign_nonempty)
  show "\<forall>c \<in> snd ` set (assign [] kvs). length c = k"
    using values_assign [of "[]" kvs] assms(2) by fastforce
qed

lemma correlated_or_independent_Inr:
  assumes "correlated_or_independent L cfg g = (Inr d1, g1)"
  shows "0 \<le> num_samples cfg \<and>
     (correlated_vars cfg = None \<longrightarrow> 0 \<le> snd (age_params cfg) \<and> 0 \<le> snd (weight_params cfg)) \<and>
     (\<exists>c1 c2. length c1 = nat (num_samples cfg) \<and> length c2 = nat (num_samples cfg) \<and>
        d1 = assign [] (zip (pair_fields cfg) [c1, c2]))"
proof (cases "correlated_vars cfg")
  case None
  with assms obtain a ga w where
    a: "norm_rvs L (fst (age_params cfg)) (snd (age_params cfg)) (num_samples cfg) g = (Inr a, ga)" and
    w: "norm_rvs L (fst (weight_params cfg)) (snd (weight_params cfg)) (num_samples cfg) ga
          = (Inr w, g1)" and
    d1: "d1 = setitem (setitem [] ''age'' (map astype_int a)) ''weight'' (map FloatV w)"
    by (auto simp: correlated_or_independent_def and_then_Inr_iff ret_def)
  from norm_rvs_Inr [OF a] norm_rvs_Inr [OF w] show ?thesis
    by (intro conjI impI exI [of _ "map astype_int a"] exI [of _ "map FloatV w"])
       (simp_all add: d1 pair_fields_def None)
next
  case (Some cv)
  with assms obtain v1 v2 where
    gcv: "generate_correlated_variables L (num_samples cfg) (mean (var1 cv)) (std (var1 cv))
            (mean (var2 cv)) (std (var2 cv)) (correlation cv) g = (Inr (v1, v2), g1)" and
    d1: "d1 = setitem (setitem [] (name (var1 cv)) v1) (name (var2 cv)) v2"
    by (auto simp: correlated_or_independent_def and_then_Inr_iff ret_def)
  from generate_correlated_variables_Inr [OF gcv] show ?thesis
    by (intro conjI impI exI [of _ v1] exI [of _ v2]) (simp_all add: d1 pair_fields_def Some)
qed

lemma correlated_or_independent_ok:
  assumes n: "0 \<le> num_samples cfg"
    and sd: "correlated_vars cfg = None \<longrightarrow> 0 \<le> snd (age_params cfg) \<and> 0 \<le> snd (weight_params cfg)"
  shows "\<exists>d1 g1. correlated_or_independent L cfg g = (Inr d1, g1)"
proof (cases "correlated_vars cfg")
  case None
  with sd have sd': "0 \<le> snd (age_params cfg)" "0 \<le> snd (weight_params cfg)"
    by simp_all
  from norm_rvs_ok [OF sd'(1) n, where L = L and g = g and loc = "fst (age_params cfg)"]
  obtain a ga where
    a: "norm_rvs L (fst (age_params cfg)) (snd (age_params cfg)) (num_samples cfg) g = (Inr a, ga)"
    by blast
  from norm_rvs_ok [OF sd'(2) n, where L = L and g = ga and loc = "fst (weight_params cfg)"]
  obtain w gw where
    w: "norm_rvs L (fst (weight_params cfg)) (snd (weight_params cfg)) (num_samples cfg) ga
          = (Inr w, gw)"
    by blast
  show ?thesis
    by (simp add: correlated_or_independent_def None and_then_def a w ret_def)
next
  case (Some cv)
  show ?thesis
    by (simp add: correlated_or_independent_def Some and_then_def ret_def
        generate_correlated_variables_eq [OF n] case_prod_beta)
qed

text \<open>
  Once every sampler has returned, the dictionary handed to \<^verbatim>\<open>pd.DataFrame\<close> is the run
  of assignments to \<open>assigned_fields\<close>, every column of the sample count's length.
\<close>

lemma data_dict_shape:
  assumes first: "correlated_or_independent L cfg g0 = (Inr d1, g1)"
    and los: "gamma_rvs L a1 s1 (num_samples cfg) g1 = (Inr los, g2)"
    and loop: "comorbidity_loop L (num_samples cfg)
                 (zip (comorbidity_names cfg) (prevalences cfg))
                 (setitem d1 ''length_of_stay'' (map FloatV los)) g2 = (Inr d2, g3)"
    and st: "gamma_rvs L a2 s2 (num_samples cfg) g3 = (Inr st, g4)"
    and ev: "binom_rvs L 1 p (num_samples cfg) g4 = (Inr ev, g5)"
  shows "\<exists>cs. length cs = length (assigned_fields cfg) \<and>
            (\<forall>c \<in> set cs. length c = nat (num_samples cfg)) \<and>
            setitem (setitem d2 ''survival_time'' (map FloatV st)) ''event_occurred'' (map IntV ev)
              = assign [] (zip (assigned_fields cfg) cs) \<and>
            pd_DataFrame (assign [] (zip (assigned_fields cfg) cs))
              = Inr \<lparr>cols = assign [] (zip (assigned_fields cfg) cs),
                      nrows = nat (num_samples cfg)\<rparr>"
proof -
  let ?n = "num_samples cfg"
  let ?ps = "zip (comorbidity_names cfg) (prevalences cfg)"
  from correlated_or_independent_Inr [OF first] obtain c1 c2 where
    c12: "length c1 = nat ?n" "length c2 = nat ?n" "d1 = assign [] (zip (pair_fields cfg) [c1, c2])"
    by blast
  obtain f1 f2 where pf: "pair_fields cfg = [f1, f2]"
    by (cases "correlated_vars cfg") (simp_all add: pair_fields_def)
  from comorbidity_loop_Inr [OF loop] obtain cs where
    cs: "length cs = length ?ps" "\<forall>c \<in> set cs. length c = nat ?n"
        "d2 = assign (setitem d1 ''length_of_stay'' (map FloatV los)) (zip (map fst ?ps) cs)"
    by blast
  note lo = gamma_rvs_Inr [OF los] and so = gamma_rvs_Inr [OF st] and eo = binom_rvs_Inr [OF ev]
  let ?cols = "[c1, c2] @ [map FloatV los] @ cs @ [map FloatV st, map IntV ev]"
  have len: "length ?cols = length (assigned_fields cfg)"
    by (simp add: assigned_fields_def comorbidity_fields_def pf cs(1))
  have all: "\<forall>c \<in> set ?cols. length c = nat ?n"
    using c12 cs(2) lo so eo by auto
  have d: "setitem (setitem d2 ''survival_time'' (map FloatV st)) ''event_occurred'' (map IntV ev)
             = assign [] (zip (assigned_fields cfg) ?cols)"
    unfolding assigned_fields_def comorbidity_fields_def
    by (simp add: pf cs(1) cs(3) c12(3) assign_append)
  have ne: "zip (assigned_fields cfg) ?cols \<noteq> []"
    by (simp add: assigned_fields_def pf)
  have vals: "\<forall>c \<in> snd ` set (zip (assigned_fields cfg) ?cols). length c = nat ?n"
    using all by (auto dest!: set_zip_rightD)
  from len all d columns_ok [OF ne vals] show ?thesis
    by blast
qed

lemma generate_synthetic_data_Inr:
  assumes "generate_synthetic_data L cfg g = (Inr df, g')"
  shows "valid_config cfg \<and>
         (\<exists>cs. length cs = length (assigned_fields cfg) \<and>
               (\<forall>c \<in> set cs. length c = nat (num_samples cfg)) \<and>
               df = \<lparr>cols = assign [] (zip (assigned_fields cfg) cs),
                      nrows = nat (num_samples cfg)\<rparr>)"
proof -
  let ?n = "num_samples cfg"
  let ?ps = "zip (comorbidity_names cfg) (prevalences cfg)"
  from assms obtain g0 d1 g1 los g2 d2 g3 st g4 ev where
    seed: "np_random_seed L (random_seed cfg) g = (Inr (), g0)" and
    first: "correlated_or_independent L cfg g0 = (Inr d1, g1)" and
    los: "gamma_rvs L (fst (length_of_stay_params cfg)) (snd (length_of_stay_params cfg)) ?n g1
            = (Inr los, g2)" and
    loop: "comorbidity_loop L ?n ?ps (setitem d1 ''length_of_stay'' (map FloatV los)) g2
            = (Inr d2, g3)" and
    st: "gamma_rvs L (survival_shape cfg) (survival_scale cfg) ?n g3 = (Inr st, g4)" and
    ev: "binom_rvs L 1 (3 / 10) ?n g4 = (Inr ev, g')" and
    df: "pd_DataFrame (setitem (setitem d2 ''survival_time'' (map FloatV st))
                                 ''event_occurred'' (map IntV ev)) = Inr df"
    unfolding generate_synthetic_data_def and_then_Inr_iff by auto
  have seed_ok: "0 \<le> random_seed cfg \<and> random_seed cfg < 2 ^ 32"
    using seed by (auto simp: np_random_seed_def split: if_splits)
  from comorbidity_loop_Inr [OF loop] have
    ps: "\<forall>p \<in> snd ` set ?ps. 0 \<le> p \<and> p \<le> 1"
    by blast
  have valid: "valid_config cfg"
    unfolding valid_config_def list_all_zip_iff
    using seed_ok correlated_or_independent_Inr [OF first] gamma_rvs_Inr [OF los]
      gamma_rvs_Inr [OF st] ps
    by simp
  from data_dict_shape [OF first los loop st ev] df valid show ?thesis
    by auto
qed

lemma generate_synthetic_data_ok:
  assumes "valid_config cfg"
  shows "\<exists>cs g'. length cs = length (assigned_fields cfg) \<and>
            (\<forall>c \<in> set cs. length c = nat (num_samples cfg)) \<and>
            generate_synthetic_data L cfg g =
              (Inr \<lparr>cols = assign [] (zip (assigned_fields cfg) cs),
                     nrows = nat (num_samples cfg)\<rparr>, g')"
proof -
  let ?n = "num_samples cfg"
  let ?ps = "zip (comorbidity_names cfg) (prevalences cfg)"
  let ?g0 = "seed_state L (random_seed cfg)"
  from assms have n: "0 \<le> ?n" and
    seed: "np_random_seed L (random_seed cfg) g = (Inr (), ?g0)" and
    ps: "\<forall>p \<in> snd ` set ?ps. 0 \<le> p \<and> p \<le> 1" and
    sd: "correlated_vars cfg = None \<longrightarrow> 0 \<le> snd (age_params cfg) \<and> 0 \<le> snd (weight_params cfg)" and
    los_p: "0 < fst (length_of_stay_params cfg)" "0 \<le> snd (length_of_stay_params cfg)" and
    st_p: "0 < survival_shape cfg" "0 \<le> survival_scale cfg"
    by (simp_all add: valid_config_def np_random_seed_def list_all_zip_iff)
  from correlated_or_independent_ok [OF n sd, where L = L and g = ?g0] obtain d1 g1 where
    first: "correlated_or_independent L cfg ?g0 = (Inr d1, g1)"
    by blast
  from gamma_rvs_ok [OF los_p n, where L = L and g = g1] obtain los g2 where
    los: "gamma_rvs L (fst (length_of_stay_params cfg)) (snd (length_of_stay_params cfg)) ?n g1
            = (Inr los, g2)"
    by blast
  from comorbidity_loop_ok [OF ps n, where L = L and g = g2
      and d = "setitem d1 ''length_of_stay'' (map FloatV los)"] obtain d2 g3 where
    loop: "comorbidity_loop L ?n ?ps (setitem d1 ''length_of_stay'' (map FloatV los)) g2
            = (Inr d2, g3)"
    by blast
  from gamma_rvs_ok [OF st_p n, where L = L and g = g3] obtain st g4 where
    st: "gamma_rvs L (survival_shape cfg) (survival_scale cfg) ?n g3 = (Inr st, g4)"
    by blast
  have "(0::real) \<le> 3 / 10" "(3::real) / 10 \<le> 1" by simp_all
  from binom_rvs_ok [OF this n, where L = L and g = g4] obtain ev g5 where
    ev: "binom_rvs L 1 (3 / 10) ?n g4 = (Inr ev, g5)"
    by blast
  have run: "generate_synthetic_data L cfg g =
      (pd_DataFrame (setitem (setitem d2 ''survival_time'' (map FloatV st))
                                 ''event_occurred'' (map IntV ev)), g5)"
    unfolding generate_synthetic_data_def
    by (simp add: and_then_def seed first los loop st ev)
  from data_dict_shape [OF first los loop st ev] run show ?thesis
    by auto
qed

lemma generate_correlated_variables_unit:
  assumes "0 \<le> n" and "corr\<^sup>2 = 1"
  shows "generate_correlated_variables L n mean1 std1 mean2 std2 corr g =
     (case pair_draws L n g of (x1, x2, g') \<Rightarrow>
        (Inr (map (\<lambda>a. FloatV (a * std1 + mean1)) x1,
              map (\<lambda>a. FloatV (corr * a * std2 + mean2)) x1), g'))"
proof -
  obtain x1 x2 g2 where pd: "pair_draws L n g = (x1, x2, g2)"
    by (cases "pair_draws L n g") auto
  from pair_draws_lengths [OF pd] have len: "length x1 = length x2"
    by simp
  have "map2 (\<lambda>a b. FloatV (corr * a * std2 + mean2)) x1 x2 = map (\<lambda>a. FloatV (corr * a * std2 + mean2)) x1"
    using len by (induction x1 x2 rule: list_induct2) simp_all
  then show ?thesis
    by (simp add: generate_correlated_variables_eq [OF assms(1)] pd np_sqrt_def assms(2))
qed

subsection \<open>Field names and column lengths of an assembled frame\<close>

lemma keys_zip: "length cs = length ks \<Longrightarrow> fst ` set (zip ks cs) = set ks"
  by (metis map_fst_zip set_map)

lemma field_names_assign:
  "length cs = length ks \<Longrightarrow> set (field_names \<lparr>cols = assign [] (zip ks cs), nrows = k\<rparr>) = set ks"
  using keys_assign_set [of "[]" "zip ks cs"] by (simp add: field_names_def keys_zip)

lemma column_lengths_assign:
  assumes "\<forall>c \<in> set cs. length c = k" and "(f, c) \<in> set (assign [] (zip ks cs))"
  shows "length c = k"
proof -
  from assms(2) have "c \<in> snd ` set (assign [] (zip ks cs))" by force
  with values_assign [of "[]" "zip ks cs"] have "c \<in> snd ` set (zip ks cs)" by auto
  then have "c \<in> set cs" by (auto dest: set_zip_rightD)
  with assms(1) show ?thesis by simp
qed

subsection \<open>Rejected parameters; running the model on concrete input\<close>

lemma rejected_not_valid: "rejected_parameter cfg \<Longrightarrow> \<not> valid_config cfg"
  unfolding rejected_parameter_def valid_config_def list_all_iff list_ex_iff
  by fastforce

lemmas run_defs = generate_synthetic_data_def two_samples_def default_config_def
        and_then_def np_random_seed_def correlated_or_independent_def norm_rvs_def gamma_rvs_def
        binom_rvs_def comorbidity_names_def prevalences_def counting_numpy_def ret_def
        numeral_2_eq_2 pd_DataFrame_def astype_int_def to_int64_def

subsection \<open>Key order; the older script\<close>

lemma keys_assign_fold:
  "map fst (assign d kvs) =
     fold (\<lambda>k acc. if k \<in> set acc then acc else acc @ [k]) (map fst kvs) (map fst d)"
proof (induction kvs arbitrary: d)
  case Nil
  show ?case by simp
next
  case (Cons kv kvs)
  obtain k v where kv: "kv = (k, v)" by (cases kv)
  show ?case
    unfolding kv by (simp add: Cons.IH keys_setitem)
qed

lemma keys_assign_insertion_order:
  "length cs = length ks \<Longrightarrow> map fst (assign [] (zip ks cs)) = insertion_order ks"
  by (simp add: keys_assign_fold insertion_order_def)



lemma insert_comorbidities_ok:
  "\<forall>c \<in> snd ` set kvs. length c = nrows df \<Longrightarrow>
     insert_comorbidities df kvs = Inr (df\<lparr>cols := assign (cols df) kvs\<rparr>)"
proof (induction kvs arbitrary: df)
  case Nil
  show ?case by simp
next
  case (Cons kv kvs)
  obtain k v where kv: "kv = (k, v)" by (cases kv)
  from Cons.prems have v: "length v = nrows df"
    and rest: "\<forall>c \<in> snd ` set kvs. length c = nrows (df\<lparr>cols := setitem (cols df) k v\<rparr>)"
    by (auto simp: kv)
  show ?case
    unfolding kv by (simp add: df_setitem_def v Cons.IH [OF rest])
qed

lemma generate_synthetic_data_legacy_ok:
  assumes "valid_config_legacy cfg"
  shows "\<exists>base cs g'.
            map fst base = [''age'', ''weight'', ''length_of_stay'', ''survival_time'', ''event_occurred''] \<and>
            length cs = length (comorbidity_fields cfg) \<and>
            generate_synthetic_data_legacy L cfg g =
              (Inr \<lparr>cols = assign base (assign [] (zip (comorbidity_fields cfg) cs)),
                     nrows = nat (num_samples cfg)\<rparr>, g')"
proof -
  let ?n = "num_samples cfg"
  let ?ps = "zip (comorbidity_names cfg) (prevalences cfg)"
  let ?g0 = "seed_state L (random_seed cfg)"
  from assms have n: "0 \<le> ?n" and
    seed: "np_random_seed L (random_seed cfg) g = (Inr (), ?g0)" and
    ps: "\<forall>p \<in> snd ` set ?ps. 0 \<le> p \<and> p \<le> 1" and
    sd: "0 \<le> snd (age_params cfg)" "0 \<le> snd (weight_params cfg)" and
    los_p: "0 < fst (length_of_stay_params cfg)" "0 \<le> snd (length_of_stay_params cfg)" and
    st_p: "0 < survival_shape cfg" "0 \<le> survival_scale cfg"
    by (simp_all add: valid_config_legacy_def np_random_seed_def list_all_zip_iff)
  from norm_rvs_ok [OF sd(1) n, where L = L and g = ?g0 and loc = "fst (age_params cfg)"]
  obtain a ga where
    a: "norm_rvs L (fst (age_params cfg)) (snd (age_params cfg)) ?n ?g0 = (Inr a, ga)"
      "length a = nat ?n"
    by blast
  from norm_rvs_ok [OF sd(2) n, where L = L and g = ga and loc = "fst (weight_params cfg)"]
  obtain w gw where
    w: "norm_rvs L (fst (weight_params cfg)) (snd (weight_params cfg)) ?n ga = (Inr w, gw)"
      "length w = nat ?n"
    by blast
  from gamma_rvs_ok [OF los_p n, where L = L and g = gw] obtain los g2 where
    los: "gamma_rvs L (fst (length_of_stay_params cfg)) (snd (length_of_stay_params cfg)) ?n gw
            = (Inr los, g2)" "length los = nat ?n"
    by blast
  from comorbidity_loop_ok [OF ps n, where L = L and g = g2 and d = "[]"] obtain d2 g3 where
    loop: "comorbidity_loop L ?n ?ps [] g2 = (Inr d2, g3)"
    by blast
  from comorbidity_loop_Inr [OF loop] obtain cs where
    cs: "length cs = length ?ps" "\<forall>c \<in> set cs. length c = nat ?n"
        "d2 = assign [] (zip (map fst ?ps) cs)"
    by blast
  from gamma_rvs_ok [OF st_p n, where L = L and g = g3] obtain st g4 where
    st: "gamma_rvs L (survival_shape cfg) (survival_scale cfg) ?n g3 = (Inr st, g4)"
      "length st = nat ?n"
    by blast
  have "(0::real) \<le> 3 / 10" "(3::real) / 10 \<le> 1" by simp_all
  from binom_rvs_ok [OF this n, where L = L and g = g4] obtain ev g5 where
    ev: "binom_rvs L 1 (3 / 10) ?n g4 = (Inr ev, g5)" "length ev = nat ?n"
    by blast
  let ?base = "[(''age'', map astype_int a), (''weight'', map FloatV w),
                       (''length_of_stay'', map FloatV los),
                       (''survival_time'', map FloatV st),
                       (''event_occurred'', map IntV ev)]"
  have frame: "pd_DataFrame ?base = Inr \<lparr>cols = ?base, nrows = nat ?n\<rparr>"
    by (rule pd_DataFrame_ok) (simp_all add: a w los st ev)
  have "\<forall>c \<in> snd ` set d2. length c = nat ?n"
    using values_assign [of "[]" "zip (map fst ?ps) cs"] cs(2) unfolding cs(3)
    by (fastforce dest: set_zip_rightD)
  then have ins: "insert_comorbidities \<lparr>cols = ?base, nrows = nat ?n\<rparr> d2
      = Inr \<lparr>cols = assign ?base d2, nrows = nat ?n\<rparr>"
    using insert_comorbidities_ok [of d2 "\<lparr>cols = ?base, nrows = nat ?n\<rparr>"] by simp
  have run: "generate_synthetic_data_legacy L cfg g =
      (Inr \<lparr>cols = assign ?base d2, nrows = nat ?n\<rparr>, g5)"
    unfolding generate_synthetic_data_legacy_def
    by (simp add: and_then_def seed a w los loop st ev frame ins)
  show ?thesis
    by (intro exI [of _ ?base] exI [of _ cs] exI [of _ g5])
       (simp add: run cs comorbidity_fields_def)
qed

lemma comorbidity_fields_take:
  "comorbidity_fields cfg =
     take (min (length (comorbidity_names cfg)) (length (prevalences cfg))) (comorbidity_names cfg)"
  by (simp add: comorbidity_fields_def map_fst_zip_take)

lemma zip_take_min: "zip (take (min (length xs) (length ys)) xs) (take (min (length xs) (length ys)) ys) = zip xs ys"
  by (induction xs ys rule: list_induct2') simp_all

lemma two_samples_valid: "valid_config two_samples" "valid_config_legacy two_samples"
  by (simp_all add: valid_config_def valid_config_legacy_def two_samples_def default_config_def
      comorbidity_names_def prevalences_def)

subsection \<open>Cutting the comorbidity lists\<close>

lemma zip_truncated:
  "zip (comorbidity_names (truncated cfg)) (prevalences (truncated cfg)) =
     zip (comorbidity_names cfg) (prevalences cfg)"
  by (simp add: truncated_def Let_def comorbidity_names_def prevalences_def zip_take_min)

lemma truncated_fields [simp]:
  "num_samples (truncated cfg) = num_samples cfg"
  "age_params (truncated cfg) = age_params cfg"
  "weight_params (truncated cfg) = weight_params cfg"
  "length_of_stay_params (truncated cfg) = length_of_stay_params cfg"
  "survival_shape (truncated cfg) = survival_shape cfg"
  "survival_scale (truncated cfg) = survival_scale cfg"
  "correlated_vars (truncated cfg) = correlated_vars cfg"
  "random_seed (truncated cfg) = random_seed cfg"
  by (simp_all add: truncated_def Let_def)

section \<open>The claims\<close>

subsection \<open>C1: the equations of the correlated pair\<close>

text \<open>
  Claim C1. For a sample count \<open>n \<ge> 0\<close> and a correlation in \<open>[-1, 1]\<close>,
  \<^verbatim>\<open>generate_correlated_variables\<close> returns two sequences of length \<open>n\<close>; with \<open>x1\<close> and
  \<open>x2\<close> the results of its two successive calls \<^verbatim>\<open>np.random.normal(0, 1, n)\<close>, element
  \<open>i\<close> of the first is \<open>x1[i] * std1 + mean1\<close> and element \<open>i\<close> of the second is
  \<open>(corr * x1[i] + sqrt (1 - corr\<^sup>2) * x2[i]) * std2 + mean2\<close>.
\<close>

theorem correlated_pair_equations:
  assumes "0 \<le> n" and "- 1 \<le> corr" and "corr \<le> 1"
  shows "\<exists>x1 g1 x2 g2 v1 v2.
           np_random_normal L 0 1 n g = (Inr x1, g1) \<and>
           np_random_normal L 0 1 n g1 = (Inr x2, g2) \<and>
           generate_correlated_variables L n mean1 std1 mean2 std2 corr g = (Inr (v1, v2), g2) \<and>
           length v1 = nat n \<and> length v2 = nat n \<and>
           (\<forall>i < nat n.
              v1 ! i = FloatV (x1 ! i * std1 + mean1) \<and>
              v2 ! i = FloatV ((corr * x1 ! i + sqrt (1 - corr\<^sup>2) * x2 ! i) * std2 + mean2))"
proof -
  obtain x1 x2 g2 where pd: "pair_draws L n g = (x1, x2, g2)"
    by (cases "pair_draws L n g") auto
  define g1 where "g1 = snd (draws (standard_normal L) (nat n) g)"
  from pd have x1: "np_random_normal L 0 1 n g = (Inr x1, g1)"
    and x2: "np_random_normal L 0 1 n g1 = (Inr x2, g2)"
    using assms(1) by (auto simp: np_random_normal_std pair_draws_def Let_def g1_def)
  from pair_draws_lengths [OF pd] have len: "length x1 = nat n" "length x2 = nat n"
    by simp_all
  from assms(2,3) have "corr\<^sup>2 \<le> 1"
    by (simp add: abs_square_le_1 abs_le_iff)
  then have sq: "np_sqrt (1 - corr\<^sup>2) = FloatV (sqrt (1 - corr\<^sup>2))"
    by (simp add: np_sqrt_def)
  let ?v1 = "map (\<lambda>a. FloatV (a * std1 + mean1)) x1"
  let ?v2 = "map2 (\<lambda>a b. FloatV ((corr * a + sqrt (1 - corr\<^sup>2) * b) * std2 + mean2)) x1 x2"
  have run: "generate_correlated_variables L n mean1 std1 mean2 std2 corr g = (Inr (?v1, ?v2), g2)"
    by (simp add: generate_correlated_variables_eq [OF assms(1)] pd sq)
  have "\<forall>i < nat n. ?v1 ! i = FloatV (x1 ! i * std1 + mean1) \<and>
          ?v2 ! i = FloatV ((corr * x1 ! i + sqrt (1 - corr\<^sup>2) * x2 ! i) * std2 + mean2)"
    by (simp add: len)
  with x1 x2 run len show ?thesis
    by (intro exI [of _ x1] exI [of _ g1] exI [of _ x2] exI [of _ g2] exI [of _ ?v1]
        exI [of _ ?v2]) simp
qed

text \<open>The theorem at two samples from the counting generator, with correlation 0.\<close>

theorem correlated_pair_equations_witness:
  "(0::int) \<le> 2 \<and> - 1 \<le> (0::real) \<and> (0::real) \<le> 1 \<and>
   (\<exists>x1 g1 x2 g2 v1 v2.
           np_random_normal counting_numpy 0 1 2 0 = (Inr x1, g1) \<and>
           np_random_normal counting_numpy 0 1 2 g1 = (Inr x2, g2) \<and>
           generate_correlated_variables counting_numpy 2 10 3 20 4 0 0 = (Inr (v1, v2), g2) \<and>
           length v1 = nat 2 \<and> length v2 = nat 2 \<and>
           (\<forall>i < nat 2.
              v1 ! i = FloatV (x1 ! i * 3 + 10) \<and>
              v2 ! i = FloatV ((0 * x1 ! i + sqrt (1 - 0\<^sup>2) * x2 ! i) * 4 + 20)))"
  using correlated_pair_equations [of 2 0 counting_numpy 0 10 3 20 4] by simp

subsection \<open>C4: determinism\<close>

text \<open>
  Claim C4. Two calls of \<^verbatim>\<open>generate_synthetic_data\<close> with the same configuration (the seed
  is part of it) return the same result, whatever state the process-wide generator was in
  before each call: the first statement of the body reseeds it.
\<close>

theorem generation_deterministic:
  "fst (generate_synthetic_data L cfg g) = fst (generate_synthetic_data L cfg g')"
  by (simp add: generate_synthetic_data_def and_then_def np_random_seed_def)

subsection \<open>C3: the record count\<close>

text \<open>
  Claim C3. For every valid configuration with sample count \<open>n\<close>,
  \<^verbatim>\<open>generate_synthetic_data\<close> returns a frame of exactly \<open>n\<close> rows, whose fields are the
  assigned ones (the pair or age and weight, length_of_stay, the comorbidities,
  survival_time, event_occurred), every column a sequence of length exactly \<open>n\<close>.
\<close>

theorem record_count:
  assumes "valid_config cfg"
  shows "\<exists>df g'. generate_synthetic_data L cfg g = (Inr df, g') \<and>
           nrows df = nat (num_samples cfg) \<and>
           length (rows df) = nat (num_samples cfg) \<and>
           set (field_names df) = set (assigned_fields cfg) \<and>
           (\<forall>(f, c) \<in> set (cols df). length c = nat (num_samples cfg))"
proof -
  from generate_synthetic_data_ok [OF assms, of L g] obtain cs g' where
    len: "length cs = length (assigned_fields cfg)" and
    all: "\<forall>c \<in> set cs. length c = nat (num_samples cfg)" and
    run: "generate_synthetic_data L cfg g =
            (Inr \<lparr>cols = assign [] (zip (assigned_fields cfg) cs),
                   nrows = nat (num_samples cfg)\<rparr>, g')"
    by blast
  let ?df = "\<lparr>cols = assign [] (zip (assigned_fields cfg) cs), nrows = nat (num_samples cfg)\<rparr>"
  have "set (field_names ?df) = set (assigned_fields cfg)"
    by (rule field_names_assign [OF len])
  moreover have "\<forall>(f, c) \<in> set (cols ?df). length c = nat (num_samples cfg)"
    using column_lengths_assign [OF all] by auto
  moreover have "length (rows ?df) = nat (num_samples cfg)"
    by (simp add: rows_def)
  ultimately show ?thesis
    using run by (intro exI [of _ ?df] exI [of _ g']) simp
qed

text \<open>The theorem at the default configuration with two samples.\<close>

theorem record_count_witness:
  "valid_config two_samples \<and>
   (\<exists>df g'. generate_synthetic_data counting_numpy two_samples 0 = (Inr df, g') \<and>
           nrows df = nat (num_samples two_samples) \<and>
           length (rows df) = nat (num_samples two_samples) \<and>
           set (field_names df) = set (assigned_fields two_samples) \<and>
           (\<forall>(f, c) \<in> set (cols df). length c = nat (num_samples two_samples)))"
proof -
  have v: "valid_config two_samples"
    by (simp add: valid_config_def two_samples_def default_config_def comorbidity_names_def
        prevalences_def)
  with record_count [OF v, of counting_numpy 0] show ?thesis
    by simp
qed

subsection \<open>C9: no samples\<close>

text \<open>
  Claim C9. With sample count \<open>0\<close> and an otherwise valid configuration,
  \<^verbatim>\<open>generate_synthetic_data\<close> returns (raises nothing) a frame with no rows, whose fields are
  the assigned ones, each an empty column; and \<^verbatim>\<open>generate_correlated_variables\<close> with
  \<open>n = 0\<close> returns two empty sequences.
\<close>

theorem empty_record_set:
  assumes "valid_config cfg" and "num_samples cfg = 0"
  shows "\<exists>df g'. generate_synthetic_data L cfg g = (Inr df, g') \<and>
           nrows df = 0 \<and> rows df = [] \<and>
           set (field_names df) = set (assigned_fields cfg) \<and>
           (\<forall>(f, c) \<in> set (cols df). c = []) \<and>
           generate_correlated_variables L 0 mean1 std1 mean2 std2 corr g = (Inr ([], []), g)"
proof -
  from generate_synthetic_data_ok [OF assms(1), of L g] obtain cs g' where
    len: "length cs = length (assigned_fields cfg)" and
    all: "\<forall>c \<in> set cs. length c = nat (num_samples cfg)" and
    run: "generate_synthetic_data L cfg g =
            (Inr \<lparr>cols = assign [] (zip (assigned_fields cfg) cs),
                   nrows = nat (num_samples cfg)\<rparr>, g')"
    by blast
  let ?df = "\<lparr>cols = assign [] (zip (assigned_fields cfg) cs), nrows = nat (num_samples cfg)\<rparr>"
  have "set (field_names ?df) = set (assigned_fields cfg)"
    by (rule field_names_assign [OF len])
  moreover have "\<forall>(f, c) \<in> set (cols ?df). c = []"
    using column_lengths_assign [OF all] assms(2) by auto
  moreover have "rows ?df = []" "nrows ?df = 0"
    by (simp_all add: rows_def assms(2))
  moreover have "generate_correlated_variables L 0 mean1 std1 mean2 std2 corr g = (Inr ([], []), g)"
    by (simp add: generate_correlated_variables_eq pair_draws_def)
  ultimately show ?thesis
    using run by (intro exI [of _ ?df] exI [of _ g']) simp
qed

text \<open>The theorem at the default configuration with no samples.\<close>

theorem empty_record_set_witness:
  "valid_config no_samples \<and> num_samples no_samples = 0 \<and>
   (\<exists>df g'. generate_synthetic_data counting_numpy no_samples 0 = (Inr df, g') \<and>
           nrows df = 0 \<and> rows df = [] \<and>
           set (field_names df) = set (assigned_fields no_samples) \<and>
           (\<forall>(f, c) \<in> set (cols df). c = []) \<and>
           generate_correlated_variables counting_numpy 0 10 3 20 4 (1 / 2) 0 = (Inr ([], []), 0))"
proof -
  have v: "valid_config no_samples" and n: "num_samples no_samples = 0"
    by (simp_all add: valid_config_def no_samples_def default_config_def comorbidity_names_def
        prevalences_def)
  from empty_record_set [OF v n, of counting_numpy 0 10 3 20 4 "1 / 2"] v n show ?thesis
    by simp
qed

subsection \<open>C2: invalid parameters\<close>

text \<open>
  Claim C2 says that a non-positive Gamma shape or scale, a prevalence outside \<open>[0, 1]\<close> or
  a negative sample count fails with an InvalidParameter error before any random sampling.
  The code validates nothing itself: a parameter fails only when the sampler that
  receives it raises. With a survival shape of \<open>0\<close> and two samples, the call fails after
  twelve variates have been drawn (the generator has gone from \<open>42\<close> to \<open>54\<close>); with a
  length-of-stay scale of \<open>0\<close>, a frame is returned.
\<close>

theorem invalid_parameter_counterexample:
  "survival_shape bad_shape \<le> 0 \<and>
   generate_synthetic_data counting_numpy bad_shape 0 = (Inl ValueError, 54) \<and>
   seed_state counting_numpy (random_seed bad_shape) = 42 \<and>
   snd (length_of_stay_params zero_scale) \<le> 0 \<and>
   \<not> isl (fst (generate_synthetic_data counting_numpy zero_scale 0))"
  by (simp add: run_defs bad_shape_def zero_scale_def)

text \<open>
  Claim C2 as amended. A configuration with a negative sample count, a Gamma shape that is
  not positive, a negative Gamma scale, or a prevalence outside \<open>[0, 1]\<close> that \<^verbatim>\<open>zip\<close> pairs
  with a comorbidity name makes \<^verbatim>\<open>generate_synthetic_data\<close> fail with the sampling library's
  \<^verbatim>\<open>ValueError\<close>: no record set is returned.
\<close>

theorem rejected_parameter_fails:
  assumes "rejected_parameter cfg"
  shows "fst (generate_synthetic_data L cfg g) = Inl ValueError"
proof (cases "fst (generate_synthetic_data L cfg g)")
  case (Inl e)
  then show ?thesis by (cases e) simp
next
  case (Inr df)
  then have "generate_synthetic_data L cfg g = (Inr df, snd (generate_synthetic_data L cfg g))"
    by (metis prod.collapse)
  from generate_synthetic_data_Inr [OF this] rejected_not_valid [OF assms] show ?thesis
    by simp
qed

text \<open>The theorem at a survival shape of 0.\<close>

theorem rejected_parameter_fails_witness:
  "rejected_parameter bad_shape \<and>
   fst (generate_synthetic_data counting_numpy bad_shape 0) = Inl ValueError"
proof -
  have r: "rejected_parameter bad_shape"
    by (simp add: rejected_parameter_def bad_shape_def two_samples_def default_config_def)
  from rejected_parameter_fails [OF r, of counting_numpy 0] r show ?thesis
    by simp
qed

subsection \<open>C5: the order of the fields\<close>

text \<open>
  Claim C5 says that the fields come in the order: pair fields (or age, weight),
  length_of_stay, survival_time, event_occurred, then the comorbidities. In
  \<^verbatim>\<open>tools/generate_data.py\<close> the comorbidity columns are assigned before survival_time and
  event_occurred, and so they come before them in the frame: at the default configuration
  the order is not the stated one.
\<close>

theorem field_order_counterexample:
  "\<not> isl (fst (generate_synthetic_data counting_numpy two_samples 0)) \<and>
   field_names (projr (fst (generate_synthetic_data counting_numpy two_samples 0))) =
     [''age'', ''weight'', ''length_of_stay'', ''diabetes'', ''hypertension'', ''cancer'',
      ''survival_time'', ''event_occurred''] \<and>
   spec_field_order two_samples =
     [''age'', ''weight'', ''length_of_stay'', ''survival_time'', ''event_occurred'',
      ''diabetes'', ''hypertension'', ''cancer''] \<and>
   field_names (projr (fst (generate_synthetic_data counting_numpy two_samples 0))) \<noteq>
     spec_field_order two_samples"
  by (simp add: run_defs field_names_def spec_field_order_def pair_fields_def
      comorbidity_fields_def)

text \<open>
  Claim C5 as amended. For every valid configuration whose assigned field names are
  pairwise distinct, \<^verbatim>\<open>generate_synthetic_data\<close> of \<^verbatim>\<open>tools/generate_data.py\<close> returns the
  fields in the order: pair fields (or age, weight), length_of_stay, the comorbidities in
  configured order, survival_time, event_occurred; the older
  \<^verbatim>\<open>generate_synthetic_medical_data.py\<close> returns them in the order: age, weight,
  length_of_stay, survival_time, event_occurred, the comorbidities in configured order.
\<close>

theorem field_order:
  "(valid_config cfg \<and> distinct (assigned_fields cfg) \<longrightarrow>
      (\<exists>df g'. generate_synthetic_data L cfg g = (Inr df, g') \<and>
         field_names df = assigned_fields cfg)) \<and>
   (valid_config_legacy cfg \<and> distinct (legacy_fields cfg) \<longrightarrow>
      (\<exists>df g'. generate_synthetic_data_legacy L cfg g = (Inr df, g') \<and>
         field_names df = legacy_fields cfg))"
proof (intro conjI impI)
  assume a: "valid_config cfg \<and> distinct (assigned_fields cfg)"
  from generate_synthetic_data_ok [of cfg L g] a obtain cs g' where
    len: "length cs = length (assigned_fields cfg)" and
    run: "generate_synthetic_data L cfg g =
            (Inr \<lparr>cols = assign [] (zip (assigned_fields cfg) cs),
                   nrows = nat (num_samples cfg)\<rparr>, g')"
    by blast
  from a len have "map fst (assign [] (zip (assigned_fields cfg) cs)) = assigned_fields cfg"
    using keys_assign_fresh [of "[]" "zip (assigned_fields cfg) cs"] by simp
  with run show "\<exists>df g'. generate_synthetic_data L cfg g = (Inr df, g') \<and>
         field_names df = assigned_fields cfg"
    by (simp add: field_names_def)
next
  assume a: "valid_config_legacy cfg \<and> distinct (legacy_fields cfg)"
  from a have v: "valid_config_legacy cfg" by simp
  from generate_synthetic_data_legacy_ok [OF v, of L g] obtain base cs g' where
    base: "map fst base = [''age'', ''weight'', ''length_of_stay'', ''survival_time'', ''event_occurred'']" and
    len: "length cs = length (comorbidity_fields cfg)" and
    run: "generate_synthetic_data_legacy L cfg g =
              (Inr \<lparr>cols = assign base (assign [] (zip (comorbidity_fields cfg) cs)),
                     nrows = nat (num_samples cfg)\<rparr>, g')"
    by metis
  from a have dc: "distinct (comorbidity_fields cfg)"
    by (simp add: legacy_fields_def)
  with len have inner: "map fst (assign [] (zip (comorbidity_fields cfg) cs)) = comorbidity_fields cfg"
    using keys_assign_fresh [of "[]" "zip (comorbidity_fields cfg) cs"] by simp
  from a have "distinct (map fst base @ map fst (assign [] (zip (comorbidity_fields cfg) cs)))"
    unfolding inner base legacy_fields_def by simp
  from keys_assign_fresh [OF this]
  have "map fst (assign base (assign [] (zip (comorbidity_fields cfg) cs))) = legacy_fields cfg"
    by (simp add: inner base legacy_fields_def)
  with run show "\<exists>df g'. generate_synthetic_data_legacy L cfg g = (Inr df, g') \<and>
         field_names df = legacy_fields cfg"
    by (simp add: field_names_def)
qed

text \<open>The theorem at the default configuration with two samples.\<close>

theorem field_order_witness:
  "(valid_config two_samples \<and> distinct (assigned_fields two_samples)) \<and>
   (\<exists>df g'. generate_synthetic_data counting_numpy two_samples 0 = (Inr df, g') \<and>
         field_names df = assigned_fields two_samples) \<and>
   (valid_config_legacy two_samples \<and> distinct (legacy_fields two_samples)) \<and>
   (\<exists>df g'. generate_synthetic_data_legacy counting_numpy two_samples 0 = (Inr df, g') \<and>
         field_names df = legacy_fields two_samples)"
proof -
  have d: "distinct (assigned_fields two_samples)" "distinct (legacy_fields two_samples)"
    by (simp_all add: assigned_fields_def legacy_fields_def pair_fields_def
        comorbidity_fields_def comorbidity_names_def prevalences_def two_samples_def
        default_config_def)
  from field_order [of two_samples counting_numpy 0] two_samples_valid d show ?thesis
    by simp
qed

subsection \<open>C6: colliding names\<close>

text \<open>
  Claim C6 says that a comorbidity named like a reserved field, like a pair field or like
  another comorbidity fails with a ConfigurationConflict error. The code checks no name:
  the later assignment to the dictionary replaces the earlier column. With a comorbidity
  named \<^verbatim>\<open>age\<close>, a frame is returned, and its \<^verbatim>\<open>age\<close> column holds the comorbidity
  indicator.
\<close>

theorem name_collision_counterexample:
  "\<not> isl (fst (generate_synthetic_data counting_numpy colliding_name 0)) \<and>
   field_names (projr (fst (generate_synthetic_data counting_numpy colliding_name 0))) =
     [''age'', ''weight'', ''length_of_stay'', ''survival_time'', ''event_occurred''] \<and>
   map_of (cols (projr (fst (generate_synthetic_data counting_numpy colliding_name 0)))) ''age''
     = Some [IntV 1, IntV 1]"
  by (simp add: run_defs colliding_name_def field_names_def)

text \<open>
  Claim C6 as amended. For every valid configuration, whatever its names,
  \<^verbatim>\<open>generate_synthetic_data\<close> returns a frame: names assigned more than once share one field,
  at the place of the first assignment, so that the field names are pairwise distinct and
  are exactly the assigned names.
\<close>

theorem name_collisions_merge:
  assumes "valid_config cfg"
  shows "\<exists>df g'. generate_synthetic_data L cfg g = (Inr df, g') \<and>
           field_names df = insertion_order (assigned_fields cfg) \<and>
           distinct (field_names df) \<and>
           set (field_names df) = set (assigned_fields cfg)"
proof -
  from generate_synthetic_data_ok [OF assms, of L g] obtain cs g' where
    len: "length cs = length (assigned_fields cfg)" and
    run: "generate_synthetic_data L cfg g =
            (Inr \<lparr>cols = assign [] (zip (assigned_fields cfg) cs),
                   nrows = nat (num_samples cfg)\<rparr>, g')"
    by blast
  let ?df = "\<lparr>cols = assign [] (zip (assigned_fields cfg) cs), nrows = nat (num_samples cfg)\<rparr>"
  have "field_names ?df = insertion_order (assigned_fields cfg)"
    by (simp add: field_names_def keys_assign_insertion_order [OF len])
  moreover have "distinct (field_names ?df)"
    using keys_assign_distinct [of "[]" "zip (assigned_fields cfg) cs"]
    by (simp add: field_names_def)
  moreover have "set (field_names ?df) = set (assigned_fields cfg)"
    by (rule field_names_assign [OF len])
  ultimately show ?thesis
    using run by (intro exI [of _ ?df] exI [of _ g']) simp
qed

text \<open>The theorem at a comorbidity named \<^verbatim>\<open>age\<close>.\<close>

theorem name_collisions_merge_witness:
  "valid_config colliding_name \<and>
   (\<exists>df g'. generate_synthetic_data counting_numpy colliding_name 0 = (Inr df, g') \<and>
           field_names df = insertion_order (assigned_fields colliding_name) \<and>
           distinct (field_names df) \<and>
           set (field_names df) = set (assigned_fields colliding_name))"
proof -
  have v: "valid_config colliding_name"
    by (simp add: valid_config_def colliding_name_def two_samples_def default_config_def
        comorbidity_names_def prevalences_def)
  from name_collisions_merge [OF v, of counting_numpy 0] v show ?thesis
    by simp
qed

subsection \<open>C8: the pair replaces age and weight\<close>



subsection \<open>C10: comorbidity lists of different lengths\<close>

text \<open>
  Claim C10. When the list of comorbidity names and the list of prevalences differ in
  length, generation does not fail for that: both scripts return what they return on the
  two lists cut to the shorter length (the surplus entries are never looked at, not even
  for validity), and on a valid configuration the comorbidity fields of the frame are
  exactly the first \<open>min\<close> names.
\<close>

theorem surplus_entries_ignored:
  "generate_synthetic_data L (truncated cfg) g = generate_synthetic_data L cfg g \<and>
   generate_synthetic_data_legacy L (truncated cfg) g = generate_synthetic_data_legacy L cfg g \<and>
   (valid_config (truncated cfg) \<longleftrightarrow> valid_config cfg) \<and>
   (valid_config cfg \<longrightarrow>
      (\<exists>df g'. generate_synthetic_data L cfg g = (Inr df, g') \<and>
         set (field_names df) =
           set (pair_fields cfg) \<union> {''length_of_stay'', ''survival_time'', ''event_occurred''} \<union>
           set (take (min (length (comorbidity_names cfg)) (length (prevalences cfg)))
                  (comorbidity_names cfg)))) \<and>
   (valid_config_legacy cfg \<longrightarrow>
      (\<exists>df g'. generate_synthetic_data_legacy L cfg g = (Inr df, g') \<and>
         set (field_names df) =
           {''age'', ''weight'', ''length_of_stay'', ''survival_time'', ''event_occurred''} \<union>
           set (take (min (length (comorbidity_names cfg)) (length (prevalences cfg)))
                  (comorbidity_names cfg))))"
proof (intro conjI impI)
  show "generate_synthetic_data L (truncated cfg) g = generate_synthetic_data L cfg g"
    by (simp add: generate_synthetic_data_def correlated_or_independent_def zip_truncated
        cong: option.case_cong)
  show "generate_synthetic_data_legacy L (truncated cfg) g = generate_synthetic_data_legacy L cfg g"
    by (simp add: generate_synthetic_data_legacy_def zip_truncated)
  show "valid_config (truncated cfg) \<longleftrightarrow> valid_config cfg"
    by (simp add: valid_config_def zip_truncated)
next
  assume v: "valid_config cfg"
  from generate_synthetic_data_ok [OF v, of L g] obtain cs g' where
    len: "length cs = length (assigned_fields cfg)" and
    run: "generate_synthetic_data L cfg g =
            (Inr \<lparr>cols = assign [] (zip (assigned_fields cfg) cs),
                   nrows = nat (num_samples cfg)\<rparr>, g')"
    by blast
  from field_names_assign [OF len] run
  show "\<exists>df g'. generate_synthetic_data L cfg g = (Inr df, g') \<and>
         set (field_names df) =
           set (pair_fields cfg) \<union> {''length_of_stay'', ''survival_time'', ''event_occurred''} \<union>
           set (take (min (length (comorbidity_names cfg)) (length (prevalences cfg)))
                  (comorbidity_names cfg))"
    by (auto simp: assigned_fields_def comorbidity_fields_take [symmetric])
next
  assume v: "valid_config_legacy cfg"
  from generate_synthetic_data_legacy_ok [OF v, of L g] obtain base cs g' where
    base: "map fst base = [''age'', ''weight'', ''length_of_stay'', ''survival_time'', ''event_occurred'']" and
    len: "length cs = length (comorbidity_fields cfg)" and
    run: "generate_synthetic_data_legacy L cfg g =
              (Inr \<lparr>cols = assign base (assign [] (zip (comorbidity_fields cfg) cs)),
                     nrows = nat (num_samples cfg)\<rparr>, g')"
    by metis
  have "fst ` set (assign base (assign [] (zip (comorbidity_fields cfg) cs)))
          = set (map fst base) \<union> set (comorbidity_fields cfg)"
    by (simp add: keys_assign_set keys_zip [OF len])
  with run
  show "\<exists>df g'. generate_synthetic_data_legacy L cfg g = (Inr df, g') \<and>
         set (field_names df) =
           {''age'', ''weight'', ''length_of_stay'', ''survival_time'', ''event_occurred''} \<union>
           set (take (min (length (comorbidity_names cfg)) (length (prevalences cfg)))
                  (comorbidity_names cfg))"
    by (auto simp: field_names_def base comorbidity_fields_take [symmetric])
qed

text \<open>The theorem at one name and three prevalences, two of them outside \<open>[0, 1]\<close>.\<close>

theorem surplus_entries_ignored_witness:
  "length (comorbidity_names surplus_prevalences) \<noteq> length (prevalences surplus_prevalences) \<and>
   valid_config surplus_prevalences \<and> valid_config_legacy surplus_prevalences \<and>
   generate_synthetic_data counting_numpy (truncated surplus_prevalences) 0
     = generate_synthetic_data counting_numpy surplus_prevalences 0 \<and>
   (\<exists>df g'. generate_synthetic_data counting_numpy surplus_prevalences 0 = (Inr df, g') \<and>
      set (field_names df) =
        set (pair_fields surplus_prevalences) \<union>
        {''length_of_stay'', ''survival_time'', ''event_occurred''} \<union>
        set (take (min (length (comorbidity_names surplus_prevalences))
                       (length (prevalences surplus_prevalences)))
               (comorbidity_names surplus_prevalences))) \<and>
   (\<exists>df g'. generate_synthetic_data_legacy counting_numpy surplus_prevalences 0 = (Inr df, g') \<and>
      set (field_names df) =
        {''age'', ''weight'', ''length_of_stay'', ''survival_time'', ''event_occurred''} \<union>
        set (take (min (length (comorbidity_names surplus_prevalences))
                       (length (prevalences surplus_prevalences)))
               (comorbidity_names surplus_prevalences)))"
proof -
  have v: "valid_config surplus_prevalences" and vl: "valid_config_legacy surplus_prevalences"
    and l: "length (comorbidity_names surplus_prevalences) \<noteq> length (prevalences surplus_prevalences)"
    by (simp_all add: valid_config_def valid_config_legacy_def surplus_prevalences_def
        two_samples_def default_config_def comorbidity_names_def prevalences_def)
  note t = surplus_entries_ignored [of counting_numpy surplus_prevalences 0]
  note t1 = conjunct1 [OF t]
  note t4 = mp [OF conjunct1 [OF conjunct2 [OF conjunct2 [OF conjunct2 [OF t]]]] v]
  note t5 = mp [OF conjunct2 [OF conjunct2 [OF conjunct2 [OF conjunct2 [OF t]]]] vl]
  show ?thesis
    by (intro conjI) (fact l v vl t1 t4 t5)+
qed

subsection \<open>C7: correlation 1 and -1\<close>

text \<open>
  Claim C7 says that for every \<open>n\<close> the pair generator accepts the correlations \<open>1\<close> and
  \<open>-1\<close> without raising, and that then \<open>v2[i] = (v1[i] - mean1) / std1 * std2 + mean2\<close>
  (with a minus sign in front at correlation \<open>-1\<close>). The generator has no guard on \<open>n\<close>:
  at a negative \<open>n\<close> the first \<^verbatim>\<open>np.random.normal(0, 1, n)\<close> raises, at either correlation.
\<close>

theorem negative_count_counterexample:
  "generate_correlated_variables counting_numpy (- 1) 10 3 20 4 1 0 = (Inl ValueError, 0) \<and>
   generate_correlated_variables counting_numpy (- 1) 10 3 20 4 (- 1) 0 = (Inl ValueError, 0)"
  by (simp add: generate_correlated_variables_neg)

text \<open>
  Claim C7 as amended. For every \<open>n \<ge> 0\<close> and all means and standard deviations, the
  pair generator returns (raises nothing) at correlation \<open>1\<close> and at correlation \<open>-1\<close>,
  with two sequences of length \<open>n\<close>, and both are rescalings of the same draw \<open>x1\<close>, the
  result of the first \<^verbatim>\<open>np.random.normal(0, 1, n)\<close>: \<open>v1[i] = x1[i] * std1 + mean1\<close> and
  \<open>v2[i] = x1[i] * std2 + mean2\<close> at correlation \<open>1\<close>,
  \<open>v2[i] = -x1[i] * std2 + mean2\<close> at correlation \<open>-1\<close>; the second draw does not enter.
  These are the operations of lines 29 to 33 themselves (\<open>sqrt (1 - 1) = 0\<close>,
  \<open>1 * a = a\<close>, \<open>0 * b = 0\<close>, \<open>a + 0 = a\<close>); the claim's form goes back from \<open>v1\<close> to
  \<open>x1\<close> by a subtraction and a division, which is exact only without rounding.
\<close>

theorem unit_correlation_same_draw:
  assumes "0 \<le> n"
  shows "\<exists>x1 g1 x2 g2.
           np_random_normal L 0 1 n g = (Inr x1, g1) \<and>
           np_random_normal L 0 1 n g1 = (Inr x2, g2) \<and>
           (\<exists>v1 v2. generate_correlated_variables L n mean1 std1 mean2 std2 1 g
                       = (Inr (v1, v2), g2) \<and>
              length v1 = nat n \<and> length v2 = nat n \<and>
              (\<forall>i < nat n. v1 ! i = FloatV (x1 ! i * std1 + mean1) \<and>
                            v2 ! i = FloatV (x1 ! i * std2 + mean2))) \<and>
           (\<exists>v1 v2. generate_correlated_variables L n mean1 std1 mean2 std2 (- 1) g
                       = (Inr (v1, v2), g2) \<and>
              length v1 = nat n \<and> length v2 = nat n \<and>
              (\<forall>i < nat n. v1 ! i = FloatV (x1 ! i * std1 + mean1) \<and>
                            v2 ! i = FloatV (- (x1 ! i) * std2 + mean2)))"
proof -
  obtain x1 x2 g2 where pd: "pair_draws L n g = (x1, x2, g2)"
    by (cases "pair_draws L n g") auto
  define g1 where "g1 = snd (draws (standard_normal L) (nat n) g)"
  from pd have x1: "np_random_normal L 0 1 n g = (Inr x1, g1)"
    and x2: "np_random_normal L 0 1 n g1 = (Inr x2, g2)"
    using assms by (auto simp: np_random_normal_std pair_draws_def Let_def g1_def)
  from pair_draws_lengths [OF pd] have len: "length x1 = nat n"
    by simp
  let ?v1 = "map (\<lambda>a. FloatV (a * std1 + mean1)) x1"
  let ?pos = "map (\<lambda>a. FloatV (a * std2 + mean2)) x1"
  let ?neg = "map (\<lambda>a. FloatV (- a * std2 + mean2)) x1"
  have pos: "generate_correlated_variables L n mean1 std1 mean2 std2 1 g = (Inr (?v1, ?pos), g2)"
    by (simp add: generate_correlated_variables_unit [OF assms] pd)
  have neg: "generate_correlated_variables L n mean1 std1 mean2 std2 (- 1) g = (Inr (?v1, ?neg), g2)"
    by (simp add: generate_correlated_variables_unit [OF assms] pd)
  have p: "\<exists>v1 v2. generate_correlated_variables L n mean1 std1 mean2 std2 1 g
                       = (Inr (v1, v2), g2) \<and>
              length v1 = nat n \<and> length v2 = nat n \<and>
              (\<forall>i < nat n. v1 ! i = FloatV (x1 ! i * std1 + mean1) \<and>
                            v2 ! i = FloatV (x1 ! i * std2 + mean2))"
    by (intro exI [of _ ?v1] exI [of _ ?pos]) (simp add: pos len)
  have m: "\<exists>v1 v2. generate_correlated_variables L n mean1 std1 mean2 std2 (- 1) g
                       = (Inr (v1, v2), g2) \<and>
              length v1 = nat n \<and> length v2 = nat n \<and>
              (\<forall>i < nat n. v1 ! i = FloatV (x1 ! i * std1 + mean1) \<and>
                            v2 ! i = FloatV (- (x1 ! i) * std2 + mean2))"
    by (intro exI [of _ ?v1] exI [of _ ?neg]) (simp add: neg len)
  show ?thesis
    by (intro exI [of _ x1] exI [of _ g1] exI [of _ x2] exI [of _ g2] conjI)
       (fact x1 x2 p m)+
qed

text \<open>The theorem at two samples from the counting generator.\<close>

theorem unit_correlation_same_draw_witness:
  "(0::int) \<le> 2 \<and>
   (\<exists>x1 g1 x2 g2.
           np_random_normal counting_numpy 0 1 2 0 = (Inr x1, g1) \<and>
           np_random_normal counting_numpy 0 1 2 g1 = (Inr x2, g2) \<and>
           (\<exists>v1 v2. generate_correlated_variables counting_numpy 2 10 3 20 4 1 0
                       = (Inr (v1, v2), g2) \<and>
              length v1 = nat 2 \<and> length v2 = nat 2 \<and>
              (\<forall>i < nat 2. v1 ! i = FloatV (x1 ! i * 3 + 10) \<and>
                            v2 ! i = FloatV (x1 ! i * 4 + 20))) \<and>
           (\<exists>v1 v2. generate_correlated_variables counting_numpy 2 10 3 20 4 (- 1) 0
                       = (Inr (v1, v2), g2) \<and>
              length v1 = nat 2 \<and> length v2 = nat 2 \<and>
              (\<forall>i < nat 2. v1 ! i = FloatV (x1 ! i * 3 + 10) \<and>
                            v2 ! i = FloatV (- (x1 ! i) * 4 + 20))))"
proof -
  have h: "(0::int) \<le> 2" by simp
  show ?thesis
    by (rule conjI [OF h unit_correlation_same_draw [OF h, of counting_numpy 0 10 3 20 4]])
qed

end
